theory Spec2Isabelle
  imports Complex_Main "HOL-Library.AList" "HOL-Library.Sublist"
begin

section \<open>Floating-point values as pandas sees them\<close>

text \<open>
  The columns of the price table are float64 series. The model keeps the special
  values that decide how the script behaves (not-a-number, the two infinities and
  the negative zero) and takes every finite operation to be exact on the reals:
  rounding, overflow and underflow are left out. \<open>Fin 0\<close> is the positive zero,
  \<open>NZero\<close> the negative one.
\<close>

datatype fl = NaN | PInf | NInf | NZero | Fin real

fun fl_real :: "fl \<Rightarrow> real" where
  "fl_real (Fin r) = r"
| "fl_real _ = 0"

fun fl_negative :: "fl \<Rightarrow> bool" where
  "fl_negative NInf = True"
| "fl_negative NZero = True"
| "fl_negative (Fin r) = (r < 0)"
| "fl_negative _ = False"

fun fl_is_inf :: "fl \<Rightarrow> bool" where
  "fl_is_inf PInf = True"
| "fl_is_inf NInf = True"
| "fl_is_inf _ = False"

fun fl_is_zero :: "fl \<Rightarrow> bool" where
  "fl_is_zero NZero = True"
| "fl_is_zero (Fin r) = (r = 0)"
| "fl_is_zero _ = False"

definition fl_signed_zero :: "bool \<Rightarrow> fl" where
  "fl_signed_zero neg = (if neg then NZero else Fin 0)"

definition fl_signed_inf :: "bool \<Rightarrow> fl" where
  "fl_signed_inf neg = (if neg then NInf else PInf)"

fun fl_neg :: "fl \<Rightarrow> fl" where
  "fl_neg NaN = NaN"
| "fl_neg PInf = NInf"
| "fl_neg NInf = PInf"
| "fl_neg NZero = Fin 0"
| "fl_neg (Fin r) = (if r = 0 then NZero else Fin (- r))"

fun fl_add :: "fl \<Rightarrow> fl \<Rightarrow> fl" where
  "fl_add NaN _ = NaN"
| "fl_add _ NaN = NaN"
| "fl_add PInf NInf = NaN"
| "fl_add NInf PInf = NaN"
| "fl_add PInf _ = PInf"
| "fl_add _ PInf = PInf"
| "fl_add NInf _ = NInf"
| "fl_add _ NInf = NInf"
| "fl_add NZero NZero = NZero"
| "fl_add NZero (Fin b) = Fin b"
| "fl_add (Fin a) NZero = Fin a"
| "fl_add (Fin a) (Fin b) = Fin (a + b)"

definition fl_sub :: "fl \<Rightarrow> fl \<Rightarrow> fl" where
  "fl_sub a b = fl_add a (fl_neg b)"

definition fl_div :: "fl \<Rightarrow> fl \<Rightarrow> fl" where
  "fl_div a b =
     (if a = NaN \<or> b = NaN then NaN
      else if fl_is_inf a then
        (if fl_is_inf b then NaN else fl_signed_inf (fl_negative a \<noteq> fl_negative b))
      else if fl_is_inf b then fl_signed_zero (fl_negative a \<noteq> fl_negative b)
      else if fl_is_zero b then
        (if fl_is_zero a then NaN else fl_signed_inf (fl_negative a \<noteq> fl_negative b))
      else if fl_is_zero a then fl_signed_zero (fl_negative a \<noteq> fl_negative b)
      else Fin (fl_real a / fl_real b))"

text \<open>Comparisons: every comparison with a NaN operand is false.\<close>

fun fl_lt :: "fl \<Rightarrow> fl \<Rightarrow> bool" where
  "fl_lt NaN _ = False"
| "fl_lt _ NaN = False"
| "fl_lt PInf _ = False"
| "fl_lt _ PInf = True"
| "fl_lt _ NInf = False"
| "fl_lt NInf _ = True"
| "fl_lt a b = (fl_real a < fl_real b)"

definition fl_gt :: "fl \<Rightarrow> fl \<Rightarrow> bool" where
  "fl_gt a b = fl_lt b a"

section \<open>The pandas series operations the script uses\<close>

text \<open>
  \<open>Series.diff()\<close>: the first entry is NaN, every later one is the entry minus
  its predecessor.
\<close>

definition series_diff :: "fl list \<Rightarrow> fl list" where
  "series_diff xs =
     (case xs of [] \<Rightarrow> []
      | _ # rest \<Rightarrow> NaN # map (\<lambda>(prev, cur). fl_sub cur prev) (zip xs rest))"

text \<open>\<open>Series.where(cond, other)\<close>: keep the entry where the condition holds, else \<open>other\<close>.\<close>

definition series_where :: "fl list \<Rightarrow> bool list \<Rightarrow> fl \<Rightarrow> fl list" where
  "series_where xs cond other = map (\<lambda>(x, keep). if keep then x else other) (zip xs cond)"

definition series_neg :: "fl list \<Rightarrow> fl list" where
  "series_neg xs = map fl_neg xs"

definition series_div :: "fl list \<Rightarrow> fl list \<Rightarrow> fl list" where
  "series_div xs ys = map (\<lambda>(x, y). fl_div x y) (zip xs ys)"

text \<open>
  \<open>Series.rolling(window=w).mean()\<close> with the default \<open>min_periods = w\<close>. The
  window at position \<open>i\<close> holds the entries \<open>i - w + 1 .. i\<close> that exist. NaN
  entries are not observations (pandas turns infinities into NaN before the
  aggregation); the mean is taken over the observations when there are at least
  \<open>w\<close> of them and is NaN otherwise. A mean that is zero is given as the positive
  zero; which zero pandas returns for a window of negative zeros depends on its
  version, and \<open>rsi_zero_loss_sign\<close> below shows that the RSI does not depend on
  it.
\<close>

fun observed :: "fl \<Rightarrow> real option" where
  "observed (Fin r) = Some r"
| "observed NZero = Some 0"
| "observed _ = None"

definition window :: "nat \<Rightarrow> 'a list \<Rightarrow> nat \<Rightarrow> 'a list" where
  "window w xs i = drop (Suc i - w) (take (Suc i) xs)"

definition mean_obs :: "nat \<Rightarrow> fl list \<Rightarrow> fl" where
  "mean_obs minp ws =
     (let obs = List.map_filter observed ws in
      if minp \<le> length obs \<and> 0 < length obs
      then Fin (sum_list obs / real (length obs)) else NaN)"

definition rolling_mean :: "nat \<Rightarrow> fl list \<Rightarrow> fl list" where
  "rolling_mean w xs = map (\<lambda>i. mean_obs w (window w xs i)) [0..<length xs]"

section \<open>Indicator columns\<close>

text \<open>Lines 70 to 72: \<open>data_df['Close'].rolling(window=n).mean()\<close>.\<close>

definition SMA :: "nat \<Rightarrow> fl list \<Rightarrow> fl list" where
  "SMA n close = rolling_mean n close"

text \<open>Lines 86 to 90, one definition per variable of the script.\<close>

definition delta :: "fl list \<Rightarrow> fl list" where
  "delta close = series_diff close"

definition gain :: "fl list \<Rightarrow> fl list" where
  "gain close =
     rolling_mean 14
       (series_where (delta close) (map (\<lambda>d. fl_gt d (Fin 0)) (delta close)) (Fin 0))"

definition loss :: "fl list \<Rightarrow> fl list" where
  "loss close =
     rolling_mean 14
       (series_neg
          (series_where (delta close) (map (\<lambda>d. fl_lt d (Fin 0)) (delta close)) (Fin 0)))"

definition rs :: "fl list \<Rightarrow> fl list" where
  "rs close = series_div (gain close) (loss close)"

definition rsi_of_rs :: "fl \<Rightarrow> fl" where
  "rsi_of_rs x = fl_sub (Fin 100) (fl_div (Fin 100) (fl_add (Fin 1) x))"

definition RSI :: "fl list \<Rightarrow> fl list" where
  "RSI close = map rsi_of_rs (rs close)"

subsection \<open>The quantities the indicator columns are compared with\<close>

text \<open>
  On a series of real close prices: the change at bar \<open>j\<close>, its upward and its
  downward part, and their means over the fourteen bars ending at bar \<open>i\<close>. Bar 0
  has no predecessor; \<open>where\<close> turns its NaN change into 0, so it counts as a bar
  without movement.
\<close>

definition change :: "real list \<Rightarrow> nat \<Rightarrow> real" where
  "change cs j = cs ! j - cs ! (j - 1)"

definition up_move :: "real list \<Rightarrow> nat \<Rightarrow> real" where
  "up_move cs j = (if j = 0 then 0 else if 0 < change cs j then change cs j else 0)"

definition down_move :: "real list \<Rightarrow> nat \<Rightarrow> real" where
  "down_move cs j = (if j = 0 then 0 else if change cs j < 0 then - change cs j else 0)"

definition mean_gain :: "real list \<Rightarrow> nat \<Rightarrow> real" where
  "mean_gain cs i = (\<Sum>j = i - 13..i. up_move cs j) / 14"

definition mean_loss :: "real list \<Rightarrow> nat \<Rightarrow> real" where
  "mean_loss cs i = (\<Sum>j = i - 13..i. down_move cs j) / 14"

section \<open>The recommendation text\<close>

definition newline :: string where
  "newline = [CHR 0x0A]"

definition buy_msg :: string where
  "buy_msg = ''Potential Buy signal based on moving averages (Close > SMA20 > SMA50).'' @ newline"

definition sell_msg :: string where
  "sell_msg = ''Potential Sell signal based on moving averages (Close < SMA20 < SMA50).'' @ newline"

definition hold_msg :: string where
  "hold_msg = ''Hold signal based on moving averages.'' @ newline"

definition oversold_msg :: string where
  "oversold_msg = ''RSI indicates the stock is oversold. Potential buy opportunity.'' @ newline"

definition overbought_msg :: string where
  "overbought_msg = ''RSI indicates the stock is overbought. Potential sell opportunity.'' @ newline"

definition neutral_msg :: string where
  "neutral_msg = ''RSI is neutral.'' @ newline"

text \<open>
  Lines 111 to 116. Python's chained comparison \<open>a > b > c\<close> is \<open>a > b and b > c\<close>.
\<close>

definition trend_message :: "fl \<Rightarrow> fl \<Rightarrow> fl \<Rightarrow> string" where
  "trend_message close_last sma20_last sma50_last =
     (if fl_gt close_last sma20_last \<and> fl_gt sma20_last sma50_last then buy_msg
      else if fl_lt close_last sma20_last \<and> fl_lt sma20_last sma50_last then sell_msg
      else hold_msg)"

text \<open>Lines 118 to 123.\<close>

definition rsi_message :: "fl \<Rightarrow> string" where
  "rsi_message rsi_last =
     (if fl_lt rsi_last (Fin 30) then oversold_msg
      else if fl_gt rsi_last (Fin 70) then overbought_msg
      else neutral_msg)"

definition recommendation :: "fl \<Rightarrow> fl \<Rightarrow> fl \<Rightarrow> fl \<Rightarrow> string" where
  "recommendation close_last sma20_last sma50_last rsi_last =
     '''' @ trend_message close_last sma20_last sma50_last @ rsi_message rsi_last"

section \<open>Tables, the store and what a run shows\<close>

text \<open>
  A pandas DataFrame: the date index and the named columns in their order. The
  script holds the fetched table in the variable \<open>data_df\<close> and assigns columns
  to that object, so tables live in a store and the variable holds an address.
\<close>

datatype date = Date (year: int) (month: int) (day: int)

definition date_lt :: "date \<Rightarrow> date \<Rightarrow> bool" where
  "date_lt a b =
     (year a < year b \<or>
      (year a = year b \<and> (month a < month b \<or> (month a = month b \<and> day a < day b))))"

definition date_ge :: "date \<Rightarrow> date \<Rightarrow> bool" where
  "date_ge a b = (a = b \<or> date_lt b a)"

record dataframe =
  index :: "date list"
  columns :: "(string \<times> fl list) list"

definition df_empty :: "dataframe \<Rightarrow> bool" where
  "df_empty df = (index df = [] \<or> columns df = [])"

definition column :: "dataframe \<Rightarrow> string \<Rightarrow> fl list option" where
  "column df name = map_of (columns df) name"

text \<open>
  \<open>df[name] = col\<close>: an existing column is replaced where it stands, a new one is
  appended.
\<close>

definition setitem :: "string \<Rightarrow> fl list \<Rightarrow> dataframe \<Rightarrow> dataframe" where
  "setitem name col df = df\<lparr>columns := AList.update name col (columns df)\<rparr>"

type_synonym store = "nat \<rightharpoonup> dataframe"

text \<open>
  Exceptions of class \<open>Exception\<close>, the ones \<open>except Exception\<close> catches.
\<close>

datatype pyexn =
    KeyError string
  | IndexError
  | AttributeError string
  | ValueError string
  | TypeError string
  | OtherError string

text \<open>
  What the run does towards the outside, in order: the Streamlit calls and the
  request to the price provider. A chart shown is named by the columns it draws,
  a formatted number by its label and its value.
\<close>

datatype event =
    St_title string
  | St_write string
  | St_write_value string fl
  | St_error string
  | St_spinner string
  | St_selectbox string "string list"
  | St_date_input string date
  | St_plotly_chart "string list"
  | St_dataframe "(string \<times> fl) list"
  | Yf_history "string option" date date

record state =
  trace :: "event list"
  frames :: store
  next_addr :: nat

type_synonym 'a prog = "state \<Rightarrow> (pyexn + 'a) \<times> state"

definition ret :: "'a \<Rightarrow> 'a prog" where
  "ret x s = (Inr x, s)"

definition raise :: "pyexn \<Rightarrow> 'a prog" where
  "raise e s = (Inl e, s)"

definition seq :: "'a prog \<Rightarrow> ('a \<Rightarrow> 'b prog) \<Rightarrow> 'b prog" where
  "seq m f s = (case m s of (Inl e, s') \<Rightarrow> (Inl e, s') | (Inr x, s') \<Rightarrow> f x s')"

definition emit :: "event \<Rightarrow> unit prog" where
  "emit e s = (Inr (), s\<lparr>trace := trace s @ [e]\<rparr>)"

definition getitem :: "nat \<Rightarrow> string \<Rightarrow> (fl list) prog" where
  "getitem a name s =
     (case frames s a of
        None \<Rightarrow> (Inl (KeyError name), s)
      | Some df \<Rightarrow>
          (case column df name of
             None \<Rightarrow> (Inl (KeyError name), s)
           | Some col \<Rightarrow> (Inr col, s)))"

definition assign :: "nat \<Rightarrow> string \<Rightarrow> fl list \<Rightarrow> unit prog" where
  "assign a name col s =
     (case frames s a of
        None \<Rightarrow> (Inl (KeyError name), s)
      | Some df \<Rightarrow> (Inr (), s\<lparr>frames := (frames s)(a \<mapsto> setitem name col df)\<rparr>))"

definition iloc_last :: "fl list \<Rightarrow> fl prog" where
  "iloc_last xs = (if xs = [] then raise IndexError else ret (last xs))"

text \<open>\<open>Series.max()\<close> and \<open>Series.min()\<close> skip NaN; with nothing left they are NaN.\<close>

definition series_max :: "fl list \<Rightarrow> fl" where
  "series_max xs =
     (case filter (\<lambda>x. x \<noteq> NaN) xs of
        [] \<Rightarrow> NaN
      | y # ys \<Rightarrow> fold (\<lambda>x m. if fl_lt m x then x else m) ys y)"

definition series_min :: "fl list \<Rightarrow> fl" where
  "series_min xs =
     (case filter (\<lambda>x. x \<noteq> NaN) xs of
        [] \<Rightarrow> NaN
      | y # ys \<Rightarrow> fold (\<lambda>x m. if fl_lt x m then x else m) ys y)"

section \<open>The symbol catalog and the price fetch\<close>

definition default_symbols :: "string list" where
  "default_symbols =
     [''HDFCBANK.NS'', ''RELIANCE.NS'', ''TCS.NS'', ''INFY.NS'', ''WIPRO.NS'',
      ''ICICIBANK.NS'', ''SBIN.NS'', ''HINDUNILVR.NS'', ''HDFC.NS'', ''BHARTIARTL.NS'']"

text \<open>
  Lines 18 to 21, the body of the \<open>try\<close>. Its argument is what the page gives: an
  exception raised while reading it, or the cells of the \<open>Symbol\<close> column of its
  third table (a missing cell is \<open>None\<close>). A column with rows and no text in any of
  them is read as a column of numbers, all missing; \<open>dropna\<close> leaves it empty, and
  adding the suffix to a column of numbers raises \<open>TypeError\<close>. Otherwise the
  missing cells are dropped and the suffix is added to the rest.
\<close>

definition read_symbol_column :: "pyexn + string option list \<Rightarrow> pyexn + string list" where
  "read_symbol_column page =
     (case page of
        Inl e \<Rightarrow> Inl e
      | Inr cells \<Rightarrow>
          if cells \<noteq> [] \<and> List.map_filter (\<lambda>c. c) cells = []
          then Inl (TypeError ''unsupported operand type(s) for +'')
          else Inr (map (\<lambda>name. name @ ''.NS'') (List.map_filter (\<lambda>c. c) cells)))"

text \<open>
  \<open>get_nse_symbols\<close>: the list the body of the \<open>try\<close> computes, and on any
  exception the message and the default list.
\<close>

definition get_nse_symbols :: "pyexn + string option list \<Rightarrow> (string list) prog" where
  "get_nse_symbols page =
     (case read_symbol_column page of
        Inr symbols \<Rightarrow> ret symbols
      | Inl e \<Rightarrow>
          seq (emit (St_error ''Failed to fetch stock symbols. Using default list.''))
            (\<lambda>_. ret default_symbols))"

definition py_str :: "string option \<Rightarrow> string" where
  "py_str v = (case v of None \<Rightarrow> ''None'' | Some s \<Rightarrow> s)"

text \<open>
  \<open>fetch_stock_data\<close>. The provider is a parameter; the request to it is recorded
  in the trace. A table that comes back is a new object in the store. The
  \<open>st.cache_data\<close> decorator of the two functions is left out: every call runs
  the body.
\<close>

definition fetch_stock_data ::
  "(string option \<Rightarrow> date \<Rightarrow> date \<Rightarrow> pyexn + dataframe) \<Rightarrow>
   string option \<Rightarrow> date \<Rightarrow> date \<Rightarrow> (nat option) prog" where
  "fetch_stock_data provider symbol start_date end_date =
     seq (emit (Yf_history symbol start_date end_date))
       (\<lambda>_. case provider symbol start_date end_date of
          Inr df \<Rightarrow>
            (\<lambda>s. (Inr (Some (next_addr s)),
                  s\<lparr>frames := (frames s)(next_addr s \<mapsto> df), next_addr := Suc (next_addr s)\<rparr>))
        | Inl e \<Rightarrow>
            seq (emit (St_error (''Failed to fetch data for '' @ py_str symbol @
                                 ''. Please try again.'')))
              (\<lambda>_. ret None))"

section \<open>The script\<close>

text \<open>
  The outside of a run: what the catalog page gives, the price provider, and what
  the user picks in the three input widgets.
\<close>

record world =
  nifty_page :: "pyexn + string option list"
  provider :: "string option \<Rightarrow> date \<Rightarrow> date \<Rightarrow> pyexn + dataframe"

record ui =
  choice :: nat
  start_input :: date
  end_input :: date

text \<open>\<open>st.selectbox\<close> returns the option picked, and \<open>None\<close> when there is none.\<close>

definition selectbox :: "string list \<Rightarrow> nat \<Rightarrow> string option" where
  "selectbox options k = (if k < length options then Some (options ! k) else None)"

text \<open>Lines 70 to 72: three column assignments on the table at address \<open>a\<close>.\<close>

definition moving_averages :: "nat \<Rightarrow> unit prog" where
  "moving_averages a =
     seq (getitem a ''Close'') (\<lambda>c20.
     seq (assign a ''SMA20'' (SMA 20 c20)) (\<lambda>_.
     seq (getitem a ''Close'') (\<lambda>c50.
     seq (assign a ''SMA50'' (SMA 50 c50)) (\<lambda>_.
     seq (getitem a ''Close'') (\<lambda>c100.
     assign a ''SMA100'' (SMA 100 c100))))))"

text \<open>Lines 86 to 90.\<close>

definition relative_strength :: "nat \<Rightarrow> unit prog" where
  "relative_strength a =
     seq (getitem a ''Close'') (\<lambda>c. assign a ''RSI'' (RSI c))"


text \<open>\<open>data_df[name].iloc[-1]\<close>.\<close>

definition latest :: "nat \<Rightarrow> string \<Rightarrow> fl prog" where
  "latest a name = seq (getitem a name) iloc_last"

text \<open>Lines 110 to 125.\<close>

definition advise :: "nat \<Rightarrow> unit prog" where
  "advise a =
     seq (latest a ''Close'') (\<lambda>close_last.
     seq (latest a ''SMA20'') (\<lambda>sma20_last.
     seq (latest a ''SMA50'') (\<lambda>sma50_last.
     seq (latest a ''RSI'') (\<lambda>rsi_last.
     emit (St_write (recommendation close_last sma20_last sma50_last rsi_last))))))"

text \<open>\<open>selected_stock.split(sep='.')[0]\<close>: the text before the first dot.\<close>

definition stock_name :: "string option \<Rightarrow> string prog" where
  "stock_name sel =
     (case sel of
        None \<Rightarrow> raise (AttributeError ''split'')
      | Some s \<Rightarrow> ret (takeWhile (\<lambda>c. c \<noteq> CHR ''.'') s))"

text \<open>
  \<open>px.line(data_df, x=data_df.index, y=ys)\<close> builds a figure from the columns
  named; it raises \<open>ValueError\<close> for the first name that is no column of the table.
\<close>

definition px_line :: "nat \<Rightarrow> string list \<Rightarrow> unit prog" where
  "px_line a ys s =
     (case frames s a of
        None \<Rightarrow> (Inl (ValueError ''data_frame''), s)
      | Some df \<Rightarrow>
          (case filter (\<lambda>y. column df y = None) ys of
             [] \<Rightarrow> (Inr (), s)
           | y # _ \<Rightarrow> (Inl (ValueError y), s)))"

text \<open>
  Lines 78 to 82: the candlestick figure reads the four price columns with
  \<open>data_df[...]\<close>, each a \<open>KeyError\<close> when missing.
\<close>

definition go_candlestick :: "nat \<Rightarrow> unit prog" where
  "go_candlestick a =
     seq (getitem a ''Open'') (\<lambda>_.
     seq (getitem a ''High'') (\<lambda>_.
     seq (getitem a ''Low'') (\<lambda>_.
     seq (getitem a ''Close'') (\<lambda>_. ret ()))))"

text \<open>Lines 52 to 125: the branch taken when a table with rows came back.\<close>

definition analysis :: "string option \<Rightarrow> nat \<Rightarrow> unit prog" where
  "analysis selected_stock a =
     seq (latest a ''Close'') (\<lambda>latest_close.
     seq (emit (St_write_value ''Latest Closing Price: '' latest_close)) (\<lambda>_.
     seq (getitem a ''Close'') (\<lambda>close_hi.
     seq (getitem a ''Close'') (\<lambda>close_lo.
     seq (emit (St_write_value '' Highest Price in selected range: '' (series_max close_hi))) (\<lambda>_.
     seq (emit (St_write_value '' Lowest Price in selected range: '' (series_min close_lo))) (\<lambda>_.
     seq (px_line a [''Close'']) (\<lambda>_.
     seq (emit (St_plotly_chart [''Close''])) (\<lambda>_.
     seq (px_line a [''Volume'']) (\<lambda>_.
     seq (emit (St_plotly_chart [''Volume''])) (\<lambda>_.
     seq (emit (St_write ''###### Moving Averages'')) (\<lambda>_.
     seq (moving_averages a) (\<lambda>_.
     seq (px_line a [''Close'', ''SMA20'', ''SMA50'', ''SMA100'']) (\<lambda>_.
     seq (emit (St_plotly_chart [''Close'', ''SMA20'', ''SMA50'', ''SMA100''])) (\<lambda>_.
     seq (emit (St_write ''###### Candlestick chart'')) (\<lambda>_.
     seq (go_candlestick a) (\<lambda>_.
     seq (emit (St_plotly_chart [''Open'', ''High'', ''Low'', ''Close''])) (\<lambda>_.
     seq (relative_strength a) (\<lambda>_.
     seq (px_line a [''RSI'']) (\<lambda>_.
     seq (emit (St_plotly_chart [''RSI''])) (\<lambda>_.
     seq (emit (St_write ''Technical Indicators Summary'')) (\<lambda>_.
     seq (latest a ''RSI'') (\<lambda>rsi_last.
     seq (latest a ''SMA20'') (\<lambda>sma20_last.
     seq (latest a ''SMA50'') (\<lambda>sma50_last.
     seq (latest a ''SMA100'') (\<lambda>sma100_last.
     seq (emit (St_dataframe
            [(''Latest Close'', latest_close),
             (''Highest Price'', series_max close_hi),
             (''Lowest Price'', series_min close_lo),
             (''RSI'', rsi_last),
             (''SMA20'', sma20_last),
             (''SMA50'', sma50_last),
             (''SMA100'', sma100_last)])) (\<lambda>_.
     seq (stock_name selected_stock) (\<lambda>name.
     seq (emit (St_write (''## Recommendations for '' @ name))) (\<lambda>_.
     advise a))))))))))))))))))))))))))))"

definition intro_text :: string where
  "intro_text =
     newline @
     ''This app fetches and displays advanced stock analysis including closing price, volume, moving averages, candlestick chart, and RSI of selected stocks from the NIFTY 50.'' @
     newline @
     ''Recommendations are provided based on SMA and RSI indicators.'' @
     newline"

text \<open>
  Lines 8 to 128, the script from top to bottom. \<open>data_df.empty\<close> is read from the
  table the fetch put into the store.
\<close>

definition main :: "world \<Rightarrow> ui \<Rightarrow> unit prog" where
  "main w u =
     seq (emit (St_title ''Advanced Stock Price Analysis App'')) (\<lambda>_.
     seq (emit (St_write intro_text)) (\<lambda>_.
     seq (get_nse_symbols (nifty_page w)) (\<lambda>stock_symbols.
     seq (emit (St_selectbox ''Select a stock symbol'' stock_symbols)) (\<lambda>_.
     seq (emit (St_date_input ''Start date'' (Date 2014 6 20))) (\<lambda>_.
     seq (emit (St_date_input ''End date'' (Date 2024 6 21))) (\<lambda>_.
     if date_ge (start_input u) (end_input u)
     then emit (St_error ''Error: End date must fall after start date.'')
     else
       seq (emit (St_spinner ''Fetching data...'')) (\<lambda>_.
       seq (fetch_stock_data (provider w) (selectbox stock_symbols (choice u))
              (start_input u) (end_input u)) (\<lambda>data_df.
       (\<lambda>s. case data_df of
          None \<Rightarrow> emit (St_error ''No data available for the selected stock and data range.'') s
        | Some a \<Rightarrow>
            (case frames s a of
               None \<Rightarrow> emit (St_error ''No data available for the selected stock and data range.'') s
             | Some df \<Rightarrow>
                 if \<not> df_empty df
                 then analysis (selectbox stock_symbols (choice u)) a s
                 else emit (St_error ''No data available for the selected stock and data range.'') s))))))))))"

definition initial_state :: state where
  "initial_state = \<lparr>trace = [], frames = Map.empty, next_addr = 0\<rparr>"

definition run :: "world \<Rightarrow> ui \<Rightarrow> (pyexn + unit) \<times> state" where
  "run w u = main w u initial_state"

text \<open>A step that only adds events at the end of the trace.\<close>

definition appends :: "'a prog \<Rightarrow> bool" where
  "appends m = (\<forall>s. \<exists>evs. trace (snd (m s)) = trace s @ evs)"

section \<open>The advisor's two rules\<close>



section \<open>Rolling means\<close>

lemma length_rolling_mean: "length (rolling_mean w xs) = length xs"
  by (simp add: rolling_mean_def)

lemma rolling_mean_nth:
  "i < length xs \<Longrightarrow> rolling_mean w xs ! i = mean_obs w (window w xs i)"
  by (simp add: rolling_mean_def)

lemma window_nth:
  assumes "i < length xs"
  shows "window w xs i = map ((!) xs) [Suc i - w..<Suc i]"
proof -
  have "take (Suc i) xs = take (Suc i) (map ((!) xs) [0..<length xs])"
    by (simp add: map_nth)
  also have "\<dots> = map ((!) xs) [0..<Suc i]"
    using assms by (simp only: take_map) simp
  finally show ?thesis
    by (simp add: window_def drop_map)
qed

lemma map_filter_all_observed:
  "(\<And>j. j \<in> set js \<Longrightarrow> observed (f j) = Some (g j)) \<Longrightarrow>
   List.map_filter observed (map f js) = map g js"
  by (induction js) simp_all

text \<open>
  When every entry of the window at \<open>i\<close> is an observation, the rolling mean is NaN
  during the warm-up and the mean of the \<open>w\<close> entries afterwards.
\<close>

lemma mean_obs_window:
  assumes "i < length xs" and "0 < w"
    and obs: "\<And>j. Suc i - w \<le> j \<Longrightarrow> j \<le> i \<Longrightarrow> observed (xs ! j) = Some (g j)"
  shows "rolling_mean w xs ! i =
           (if Suc i < w then NaN else Fin ((\<Sum>j = Suc i - w..<Suc i. g j) / real w))"
proof -
  define js where "js = [Suc i - w..<Suc i]"
  have len: "length js = (if Suc i < w then Suc i else w)"
    unfolding js_def by auto
  have "window w xs i = map ((!) xs) js"
    unfolding js_def by (rule window_nth [OF assms(1)])
  moreover have "List.map_filter observed (map ((!) xs) js) = map g js"
    by (rule map_filter_all_observed) (auto simp: js_def intro: obs)
  ultimately have mf: "List.map_filter observed (window w xs i) = map g js"
    by simp
  have total: "sum_list (map g js) = (\<Sum>j = Suc i - w..<Suc i. g j)"
    unfolding js_def by (simp only: interv_sum_list_conv_sum_set_nat set_upt)
  have ne: "js \<noteq> []"
    unfolding js_def using assms(2) by simp
  show ?thesis
    using assms(2)
    by (simp add: rolling_mean_nth [OF assms(1)] mean_obs_def Let_def mf total len ne)
qed

text \<open>
  C1. For a series of real close prices and a window \<open>n\<close> of 20, 50 or 100 bars,
  the SMA column has one entry per bar; at bar \<open>i\<close> it is NaN when \<open>i < n - 1\<close> and
  the arithmetic mean of the closes of bars \<open>i - n + 1\<close> to \<open>i\<close> otherwise; on a
  series of fewer than \<open>n\<close> bars it is NaN at every bar. (Finite arithmetic is
  taken exact.)
\<close>

theorem sma_window_mean:
  assumes "n \<in> {20, 50, 100}"
  shows "length (SMA n (map Fin cs)) = length cs
    \<and> (\<forall>i<length cs. SMA n (map Fin cs) ! i =
          (if i < n - 1 then NaN else Fin ((\<Sum>j = i + 1 - n..i. cs ! j) / real n)))
    \<and> (length cs < n \<longrightarrow> (\<forall>i<length cs. SMA n (map Fin cs) ! i = NaN))"
proof -
  have pos: "0 < n" using assms by auto
  have nth: "SMA n (map Fin cs) ! i =
          (if i < n - 1 then NaN else Fin ((\<Sum>j = i + 1 - n..i. cs ! j) / real n))"
    if "i < length cs" for i
  proof -
    have "rolling_mean n (map Fin cs) ! i =
           (if Suc i < n then NaN else Fin ((\<Sum>j = Suc i - n..<Suc i. cs ! j) / real n))"
      using that pos by (intro mean_obs_window) simp_all
    moreover have "{Suc i - n..<Suc i} = {i + 1 - n..i}" by auto
    moreover have "Suc i < n \<longleftrightarrow> i < n - 1" using pos by auto
    ultimately show ?thesis by (simp add: SMA_def)
  qed
  show ?thesis
    using nth by (auto simp: SMA_def length_rolling_mean)
qed

theorem sma_window_mean_witness:
  "SMA 20 (map Fin [1, 2, 3, 4, 5, 6, 7, 8, 9, 10, 11, 12, 13, 14, 15, 16, 17, 18, 19, 20, 21]) ! 20
     = Fin 11.5
   \<and> SMA 20 (map Fin [1, 2, 3, 4, 5, 6, 7, 8, 9, 10, 11, 12, 13, 14, 15, 16, 17, 18, 19, 20, 21]) ! 18
     = NaN
   \<and> SMA 50 (map Fin [7, 8, 9]) ! 2 = NaN"
proof -
  let ?cs = "[1, 2, 3, 4, 5, 6, 7, 8, 9, 10, 11, 12, 13, 14, 15, 16, 17, 18, 19, 20, 21] :: real list"
  have n20: "(20::nat) \<in> {20, 50, 100}" and n50: "(50::nat) \<in> {20, 50, 100}"
    by simp_all
  have len: "(20::nat) < length ?cs" "(18::nat) < length ?cs" "(2::nat) < length [7, 8, 9 :: real]"
    "length [7, 8, 9 :: real] < 50"
    by simp_all
  have mean: "(\<Sum>j = 20 + 1 - 20..20. ?cs ! j) / real 20 = 11.5"
    by code_simp
  from sma_window_mean [OF n20, of ?cs] len(1)
  have "SMA 20 (map Fin ?cs) ! 20 =
          (if (20::nat) < 20 - 1 then NaN else Fin ((\<Sum>j = 20 + 1 - 20..20. ?cs ! j) / real 20))"
    by blast
  then have a: "SMA 20 (map Fin ?cs) ! 20 = Fin 11.5"
    by (simp only: mean) simp
  from sma_window_mean [OF n20, of ?cs] len(2)
  have "SMA 20 (map Fin ?cs) ! 18 =
          (if (18::nat) < 20 - 1 then NaN else Fin ((\<Sum>j = 18 + 1 - 20..18. ?cs ! j) / real 20))"
    by blast
  then have b: "SMA 20 (map Fin ?cs) ! 18 = NaN"
    by simp
  from sma_window_mean [OF n50, of "[7, 8, 9]"] len(3) len(4)
  have c: "SMA 50 (map Fin [7, 8, 9]) ! 2 = NaN"
    by blast
  from a b c show ?thesis by blast
qed

section \<open>The RSI column on real close prices\<close>

lemma fl_sub_Fin: "fl_sub (Fin a) (Fin b) = Fin (a - b)"
  by (simp add: fl_sub_def)

lemma length_delta: "length (delta xs) = length xs"
  by (cases xs) (simp_all add: delta_def series_diff_def)

lemma delta_nth:
  assumes "j < length cs"
  shows "delta (map Fin cs) ! j = (if j = 0 then NaN else Fin (change cs j))"
proof (cases cs)
  case Nil
  with assms show ?thesis by simp
next
  case (Cons c rest)
  show ?thesis
  proof (cases j)
    case 0
    then show ?thesis by (simp add: Cons delta_def series_diff_def)
  next
    case (Suc k)
    with assms Cons have k: "k < length rest" by simp
    have "(Fin c # map Fin rest) ! k = Fin ((c # rest) ! k)"
      using k nth_map [of k "c # rest" Fin] by simp
    with k have "delta (map Fin cs) ! j = fl_sub (Fin (rest ! k)) (Fin ((c # rest) ! k))"
      by (simp add: Cons Suc delta_def series_diff_def)
    then show ?thesis
      by (simp add: fl_sub_Fin change_def Cons Suc)
  qed
qed

lemma length_series_where:
  "length (series_where (delta xs) (map f (delta xs)) v) = length xs"
  by (simp add: series_where_def length_delta)

lemma ups_nth:
  assumes "j < length cs"
  shows "series_where (delta (map Fin cs)) (map (\<lambda>d. fl_gt d (Fin 0)) (delta (map Fin cs))) (Fin 0) ! j
         = Fin (up_move cs j)"
  using assms
  by (simp add: series_where_def length_delta delta_nth up_move_def fl_gt_def)

lemma downs_nth:
  assumes "j < length cs"
  shows "observed (series_neg (series_where (delta (map Fin cs))
            (map (\<lambda>d. fl_lt d (Fin 0)) (delta (map Fin cs))) (Fin 0)) ! j)
         = Some (down_move cs j)"
  using assms
  by (simp add: series_neg_def series_where_def length_delta delta_nth down_move_def)

lemma length_downs:
  "length (series_neg (series_where (delta xs) (map f (delta xs)) v)) = length xs"
  by (simp add: series_neg_def length_series_where)

lemma gain_nth:
  assumes "i < length cs"
  shows "gain (map Fin cs) ! i = (if i < 13 then NaN else Fin (mean_gain cs i))"
proof -
  have "gain (map Fin cs) ! i =
          (if Suc i < 14 then NaN else Fin ((\<Sum>j = Suc i - 14..<Suc i. up_move cs j) / real 14))"
    unfolding gain_def
    using assms by (intro mean_obs_window) (simp_all add: length_series_where ups_nth)
  moreover have "Suc i - 14 = i - 13" "(Suc i < 14) = (i < 13)"
    by auto
  ultimately show ?thesis
    by (simp only: atLeastLessThanSuc_atLeastAtMost mean_gain_def of_nat_numeral)
qed

lemma loss_nth:
  assumes "i < length cs"
  shows "loss (map Fin cs) ! i = (if i < 13 then NaN else Fin (mean_loss cs i))"
proof -
  have "loss (map Fin cs) ! i =
          (if Suc i < 14 then NaN else Fin ((\<Sum>j = Suc i - 14..<Suc i. down_move cs j) / real 14))"
    unfolding loss_def
    using assms
    by (intro mean_obs_window) (simp_all add: length_downs downs_nth)
  moreover have "Suc i - 14 = i - 13" "(Suc i < 14) = (i < 13)"
    by auto
  ultimately show ?thesis
    by (simp only: atLeastLessThanSuc_atLeastAtMost mean_loss_def of_nat_numeral)
qed

lemma length_gain: "length (gain xs) = length xs"
  by (simp add: gain_def length_rolling_mean length_series_where)

lemma length_loss: "length (loss xs) = length xs"
  by (simp add: loss_def length_rolling_mean length_downs)

lemma length_RSI: "length (RSI xs) = length xs"
  by (simp add: RSI_def rs_def series_div_def length_gain length_loss)

lemma RSI_nth_formula:
  "i < length xs \<Longrightarrow> RSI xs ! i = rsi_of_rs (fl_div (gain xs ! i) (loss xs ! i))"
  by (simp add: RSI_def rs_def series_div_def length_gain length_loss)

lemma mean_gain_nonneg: "0 \<le> mean_gain cs i"
  by (simp add: mean_gain_def up_move_def sum_nonneg)

lemma mean_loss_nonneg: "0 \<le> mean_loss cs i"
  by (simp add: mean_loss_def down_move_def sum_nonneg)

text \<open>
  The formula on finite non-negative means: the quotient is finite when the mean
  loss is positive, infinite when only the mean loss is zero, NaN when both are.
\<close>

lemma rsi_of_rs_cases:
  assumes "0 \<le> g" "0 \<le> l"
  shows "rsi_of_rs (fl_div (Fin g) (Fin l)) =
      (if 0 < l then Fin (100 - 100 / (1 + g / l)) else if 0 < g then Fin 100 else NaN)"
proof -
  have "0 \<le> g / l"
    using assms by simp
  then have "1 + g / l \<noteq> 0"
    by linarith
  then show ?thesis
    using assms
    by (auto simp: rsi_of_rs_def fl_div_def fl_signed_inf_def fl_signed_zero_def fl_sub_def)
qed

lemma RSI_nth:
  assumes "i < length cs"
  shows "RSI (map Fin cs) ! i =
     (if i < 13 then NaN
      else if 0 < mean_loss cs i then Fin (100 - 100 / (1 + mean_gain cs i / mean_loss cs i))
      else if 0 < mean_gain cs i then Fin 100
      else NaN)"
proof (cases "i < 13")
  case True
  with assms show ?thesis
    by (simp add: RSI_nth_formula gain_nth fl_div_def rsi_of_rs_def fl_sub_def)
next
  case False
  with assms show ?thesis
    by (simp add: RSI_nth_formula gain_nth loss_nth
        rsi_of_rs_cases [OF mean_gain_nonneg mean_loss_nonneg])
qed

text \<open>
  A rolling mean of negative zeros may come out as a negative zero; the formula
  gives the same results on it.
\<close>

lemma rsi_zero_loss_sign:
  "0 < g \<Longrightarrow> rsi_of_rs (fl_div (Fin g) NZero) = Fin 100"
  "rsi_of_rs (fl_div (Fin 0) NZero) = NaN"
  by (simp_all add: rsi_of_rs_def fl_div_def fl_signed_inf_def fl_signed_zero_def fl_sub_def)

subsection \<open>Rising, falling and flat series\<close>

lemma increasing_moves:
  assumes "sorted_wrt (<) cs" "0 < j" "j < length cs"
  shows "0 < up_move cs j" "down_move cs j = 0"
proof -
  have "cs ! (j - 1) < cs ! j"
    using assms by (simp add: sorted_wrt_iff_nth_less)
  then show "0 < up_move cs j" "down_move cs j = 0"
    using assms(2) by (simp_all add: up_move_def down_move_def change_def)
qed

lemma decreasing_moves:
  assumes "sorted_wrt (>) cs" "0 < j" "j < length cs"
  shows "up_move cs j = 0" "0 < down_move cs j"
proof -
  have "cs ! j < cs ! (j - 1)"
    using assms by (simp add: sorted_wrt_iff_nth_less)
  then show "up_move cs j = 0" "0 < down_move cs j"
    using assms(2) by (simp_all add: up_move_def down_move_def change_def)
qed

lemma up_move_nonneg: "0 \<le> up_move cs j"
  by (simp add: up_move_def)

lemma down_move_nonneg: "0 \<le> down_move cs j"
  by (simp add: down_move_def)

lemma increasing_means:
  assumes "sorted_wrt (<) cs" "13 \<le> i" "i < length cs"
  shows "0 < mean_gain cs i" "mean_loss cs i = 0"
proof -
  have "0 < (\<Sum>j = i - 13..i. up_move cs j)"
  proof (rule sum_pos2 [where i = i])
    show "0 < up_move cs i"
      using assms by (intro increasing_moves(1)) simp_all
  qed (simp_all add: up_move_nonneg)
  then show "0 < mean_gain cs i"
    by (simp add: mean_gain_def)
  have "down_move cs j = 0" if "j \<in> {i - 13..i}" for j
  proof (cases "j = 0")
    case True
    then show ?thesis by (simp add: down_move_def)
  next
    case False
    with that assms show ?thesis
      by (intro increasing_moves(2)) simp_all
  qed
  then show "mean_loss cs i = 0"
    by (simp add: mean_loss_def)
qed

lemma decreasing_means:
  assumes "sorted_wrt (>) cs" "13 \<le> i" "i < length cs"
  shows "mean_gain cs i = 0" "0 < mean_loss cs i"
proof -
  have "0 < (\<Sum>j = i - 13..i. down_move cs j)"
  proof (rule sum_pos2 [where i = i])
    show "0 < down_move cs i"
      using assms by (intro decreasing_moves(2)) simp_all
  qed (simp_all add: down_move_nonneg)
  then show "0 < mean_loss cs i"
    by (simp add: mean_loss_def)
  have "up_move cs j = 0" if "j \<in> {i - 13..i}" for j
  proof (cases "j = 0")
    case True
    then show ?thesis by (simp add: up_move_def)
  next
    case False
    with that assms show ?thesis
      by (intro decreasing_moves(1)) simp_all
  qed
  then show "mean_gain cs i = 0"
    by (simp add: mean_gain_def)
qed

lemma RSI_increasing:
  assumes "sorted_wrt (<) cs" "i < length cs"
  shows "RSI (map Fin cs) ! i = (if i < 13 then NaN else Fin 100)"
  using assms increasing_means [of cs i] by (simp add: RSI_nth)

lemma RSI_decreasing:
  assumes "sorted_wrt (>) cs" "i < length cs"
  shows "RSI (map Fin cs) ! i = (if i < 13 then NaN else Fin 0)"
  using assms decreasing_means [of cs i] by (simp add: RSI_nth)

lemma RSI_bounded:
  assumes "i < length cs" "RSI (map Fin cs) ! i \<noteq> NaN"
  shows "\<exists>r. RSI (map Fin cs) ! i = Fin r \<and> 0 \<le> r \<and> r \<le> 100"
proof (cases "0 < mean_loss cs i")
  case True
  define q where "q = mean_gain cs i / mean_loss cs i"
  have "0 \<le> q"
    unfolding q_def using True mean_gain_nonneg [of cs i] by simp
  then have "0 < 100 / (1 + q)" "100 / (1 + q) \<le> 100"
    by (simp_all add: field_simps)
  then have "0 \<le> 100 - 100 / (1 + q)" "100 - 100 / (1 + q) \<le> 100"
    by simp_all
  moreover have "RSI (map Fin cs) ! i = Fin (100 - 100 / (1 + q))"
    using assms True by (simp add: RSI_nth q_def split: if_splits)
  ultimately show ?thesis by blast
next
  case False
  with assms show ?thesis
    by (simp add: RSI_nth split: if_splits)
qed

lemma flat_means:
  assumes "i < length cs" "window 15 cs i = replicate 15 c"
  shows "mean_gain cs i = 0" "mean_loss cs i = 0" "14 \<le> i"
proof -
  have w: "map ((!) cs) [Suc i - 15..<Suc i] = replicate 15 c"
    using assms by (simp add: window_nth)
  from arg_cong [OF w, of length] show i14: "14 \<le> i"
    by simp
  have at: "cs ! j = c" if "i - 14 \<le> j" "j \<le> i" for j
  proof -
    have "map ((!) cs) [Suc i - 15..<Suc i] ! (j - (i - 14)) = cs ! j"
      using that i14 by (subst nth_map_upt) auto
    moreover have "replicate 15 c ! (j - (i - 14)) = c"
      using that i14 by (intro nth_replicate) auto
    ultimately show ?thesis
      using w by simp
  qed
  have "change cs j = 0" if "j \<in> {i - 13..i}" for j
  proof -
    have "i - 14 \<le> j" "j \<le> i" "i - 14 \<le> j - 1" "j - 1 \<le> i"
      using that i14 by auto
    then have "cs ! j = c" "cs ! (j - 1) = c"
      by (auto intro: at)
    then show ?thesis
      by (simp add: change_def)
  qed
  then have "up_move cs j = 0" "down_move cs j = 0" if "j \<in> {i - 13..i}" for j
    using that by (simp_all add: up_move_def down_move_def)
  then show "mean_gain cs i = 0" "mean_loss cs i = 0"
    by (simp_all add: mean_gain_def mean_loss_def)
qed

lemma RSI_flat:
  assumes "i < length cs" "window 15 cs i = replicate 15 c"
  shows "RSI (map Fin cs) ! i = NaN"
  using assms flat_means [OF assms] by (simp add: RSI_nth)

subsection \<open>The claims about RSI\<close>

text \<open>
  C2, as stated, fails: on fifteen equal closes the fourteen-bar mean loss at the
  last bar is 0 and the RSI there is NaN, not 100.
\<close>

theorem rsi_flat_counterexample:
  "loss (map Fin [5, 5, 5, 5, 5, 5, 5, 5, 5, 5, 5, 5, 5, 5, 5]) ! 14 = Fin 0
   \<and> RSI (map Fin [5, 5, 5, 5, 5, 5, 5, 5, 5, 5, 5, 5, 5, 5, 5]) ! 14 = NaN
   \<and> RSI (map Fin [5, 5, 5, 5, 5, 5, 5, 5, 5, 5, 5, 5, 5, 5, 5]) ! 14 \<noteq> Fin 100"
  by code_simp

text \<open>
  C2, amended. On a series of at least 15 real closes the RSI at every bar \<open>i\<close> is
  \<open>100 - 100 / (1 + RS)\<close> with \<open>RS\<close> the rolling mean of gains divided by the
  rolling mean of losses. From bar 13 on (counting from 0) the two rolling means
  are the means of the upward and of the downward moves of the fourteen bars
  ending at \<open>i\<close>; with a positive mean loss the RSI is the finite value of the
  formula; with a zero mean loss and a positive mean gain it is 100; on a
  strictly increasing series it is 100, at the fifteenth bar in particular.
\<close>

theorem rsi_formula_zero_loss:
  assumes "15 \<le> length cs" "i < length cs"
  shows "RSI (map Fin cs) ! i =
           fl_sub (Fin 100)
             (fl_div (Fin 100)
                (fl_add (Fin 1) (fl_div (gain (map Fin cs) ! i) (loss (map Fin cs) ! i))))
    \<and> (13 \<le> i \<longrightarrow>
          gain (map Fin cs) ! i = Fin (mean_gain cs i)
        \<and> loss (map Fin cs) ! i = Fin (mean_loss cs i)
        \<and> (0 < mean_loss cs i \<longrightarrow>
              RSI (map Fin cs) ! i = Fin (100 - 100 / (1 + mean_gain cs i / mean_loss cs i)))
        \<and> (mean_loss cs i = 0 \<and> 0 < mean_gain cs i \<longrightarrow> RSI (map Fin cs) ! i = Fin 100)
        \<and> (sorted_wrt (<) cs \<longrightarrow> RSI (map Fin cs) ! i = Fin 100))"
proof -
  have "RSI (map Fin cs) ! i = rsi_of_rs (fl_div (gain (map Fin cs) ! i) (loss (map Fin cs) ! i))"
    using assms(2) by (simp add: RSI_nth_formula)
  then have formula: "RSI (map Fin cs) ! i =
           fl_sub (Fin 100)
             (fl_div (Fin 100)
                (fl_add (Fin 1) (fl_div (gain (map Fin cs) ! i) (loss (map Fin cs) ! i))))"
    by (simp only: rsi_of_rs_def)
  have means: "gain (map Fin cs) ! i = Fin (mean_gain cs i)"
      "loss (map Fin cs) ! i = Fin (mean_loss cs i)" if "13 \<le> i"
    using that assms(2) by (simp_all add: gain_nth loss_nth)
  have pos: "RSI (map Fin cs) ! i = Fin (100 - 100 / (1 + mean_gain cs i / mean_loss cs i))"
    if "13 \<le> i" "0 < mean_loss cs i"
    using that assms(2) by (simp add: RSI_nth)
  have zero: "RSI (map Fin cs) ! i = Fin 100"
    if "13 \<le> i" "mean_loss cs i = 0" "0 < mean_gain cs i"
    using that assms(2) by (simp add: RSI_nth)
  have inc: "RSI (map Fin cs) ! i = Fin 100" if "13 \<le> i" "sorted_wrt (<) cs"
    using that assms(2) by (simp add: RSI_increasing)
  from formula means pos zero inc show ?thesis
    by blast
qed

theorem rsi_formula_zero_loss_witness:
  "RSI (map Fin [10, 11, 12, 13, 14, 15, 16, 17, 18, 19, 20, 21, 22, 23, 24]) ! 14 = Fin 100
   \<and> loss (map Fin [10, 11, 12, 13, 14, 15, 16, 17, 18, 19, 20, 21, 22, 23, 24]) ! 14 = Fin 0
   \<and> gain (map Fin [10, 11, 12, 13, 14, 15, 16, 17, 18, 19, 20, 21, 22, 23, 24]) ! 14 = Fin 1
   \<and> RSI (map Fin [10, 11, 10, 11, 10, 11, 10, 11, 10, 11, 10, 11, 10, 11, 10]) ! 14 = Fin 50"
proof -
  let ?up = "[10, 11, 12, 13, 14, 15, 16, 17, 18, 19, 20, 21, 22, 23, 24] :: real list"
  let ?zz = "[10, 11, 10, 11, 10, 11, 10, 11, 10, 11, 10, 11, 10, 11, 10] :: real list"
  have len: "15 \<le> length ?up" "14 < length ?up" "15 \<le> length ?zz" "14 < length ?zz"
    by simp_all
  have up: "sorted_wrt (<) ?up"
    by simp
  have mg: "mean_gain ?up 14 = 1" and ml: "mean_loss ?up 14 = 0"
    by code_simp+
  have zg: "mean_gain ?zz 14 = 1 / 2" and zl: "mean_loss ?zz 14 = 1 / 2"
    by code_simp+
  have i: "(13::nat) \<le> 14"
    by simp
  note on_up = rsi_formula_zero_loss [OF len(1) len(2), THEN conjunct2, THEN mp, OF i]
  note on_zz = rsi_formula_zero_loss [OF len(3) len(4), THEN conjunct2, THEN mp, OF i]
  from on_up up have a: "RSI (map Fin ?up) ! 14 = Fin 100"
    by blast
  from on_up have "loss (map Fin ?up) ! 14 = Fin (mean_loss ?up 14)"
    by blast
  then have b: "loss (map Fin ?up) ! 14 = Fin 0"
    by (simp only: ml)
  from on_up have "gain (map Fin ?up) ! 14 = Fin (mean_gain ?up 14)"
    by blast
  then have c: "gain (map Fin ?up) ! 14 = Fin 1"
    by (simp only: mg)
  have "0 < mean_loss ?zz 14"
    by (simp only: zl)
  with on_zz
  have "RSI (map Fin ?zz) ! 14 = Fin (100 - 100 / (1 + mean_gain ?zz 14 / mean_loss ?zz 14))"
    by blast
  then have d: "RSI (map Fin ?zz) ! 14 = Fin 50"
    by (simp only: zg zl) simp
  from a b c d show ?thesis by blast
qed

text \<open>
  C8. At every bar where the RSI of a series of real closes is not NaN it is a
  finite value between 0 and 100; on a strictly decreasing series of at least 15
  bars it is NaN during the warm-up and 0 afterwards, on a strictly increasing one
  NaN and then 100; the column is the formula applied to \<open>rs\<close> entry by entry, with
  no clamping.
\<close>

theorem rsi_within_0_100:
  assumes "i < length cs"
  shows "(RSI (map Fin cs) ! i \<noteq> NaN \<longrightarrow>
            (\<exists>r. RSI (map Fin cs) ! i = Fin r \<and> 0 \<le> r \<and> r \<le> 100))
    \<and> (15 \<le> length cs \<and> sorted_wrt (>) cs \<longrightarrow>
          RSI (map Fin cs) ! i = (if i < 13 then NaN else Fin 0))
    \<and> (15 \<le> length cs \<and> sorted_wrt (<) cs \<longrightarrow>
          RSI (map Fin cs) ! i = (if i < 13 then NaN else Fin 100))
    \<and> RSI (map Fin cs) =
        map (\<lambda>x. fl_sub (Fin 100) (fl_div (Fin 100) (fl_add (Fin 1) x))) (rs (map Fin cs))"
proof -
  have "RSI (map Fin cs) =
        map (\<lambda>x. fl_sub (Fin 100) (fl_div (Fin 100) (fl_add (Fin 1) x))) (rs (map Fin cs))"
    by (simp add: RSI_def rsi_of_rs_def [abs_def])
  with RSI_bounded [OF assms] RSI_decreasing [OF _ assms] RSI_increasing [OF _ assms]
  show ?thesis
    by blast
qed

theorem rsi_within_0_100_witness:
  "RSI (map Fin [100, 90, 80, 70, 60, 50, 40, 30, 20, 19, 18, 17, 16, 15, 14]) ! 14 = Fin 0
   \<and> RSI (map Fin [10, 11, 12, 13, 14, 15, 16, 17, 18, 19, 20, 21, 22, 23, 25]) ! 14 = Fin 100
   \<and> (\<exists>r. RSI (map Fin [10, 13, 12, 15, 14, 17, 16, 19, 18, 21, 20, 23, 22, 25, 24]) ! 14 = Fin r
          \<and> 0 \<le> r \<and> r \<le> 100)"
proof -
  let ?dn = "[100, 90, 80, 70, 60, 50, 40, 30, 20, 19, 18, 17, 16, 15, 14] :: real list"
  let ?up = "[10, 11, 12, 13, 14, 15, 16, 17, 18, 19, 20, 21, 22, 23, 25] :: real list"
  let ?zz = "[10, 13, 12, 15, 14, 17, 16, 19, 18, 21, 20, 23, 22, 25, 24] :: real list"
  have len: "14 < length ?dn" "14 < length ?up" "14 < length ?zz"
    "15 \<le> length ?dn" "15 \<le> length ?up"
    by simp_all
  have mono: "sorted_wrt (>) ?dn" "sorted_wrt (<) ?up"
    by simp_all
  have defined: "RSI (map Fin ?zz) ! 14 \<noteq> NaN"
    by code_simp
  from rsi_within_0_100 [OF len(1), THEN conjunct2, THEN conjunct1] len(4) mono(1)
  have a: "RSI (map Fin ?dn) ! 14 = Fin 0"
    by simp
  from rsi_within_0_100 [OF len(2), THEN conjunct2, THEN conjunct2, THEN conjunct1] len(5) mono(2)
  have b: "RSI (map Fin ?up) ! 14 = Fin 100"
    by simp
  from rsi_within_0_100 [OF len(3), THEN conjunct1] defined
  have c: "\<exists>r. RSI (map Fin ?zz) ! 14 = Fin r \<and> 0 \<le> r \<and> r \<le> 100"
    by blast
  from a b c show ?thesis by blast
qed

text \<open>
  C10. When the fifteen bars ending at bar \<open>i\<close> have one and the same close, the
  rolling mean gain and the rolling mean loss at \<open>i\<close> are both 0 and the RSI at
  \<open>i\<close> is NaN, neither 100 nor 0.
\<close>

theorem rsi_flat_run_nan:
  assumes "i < length cs" "window 15 cs i = replicate 15 c"
  shows "gain (map Fin cs) ! i = Fin 0
    \<and> loss (map Fin cs) ! i = Fin 0
    \<and> RSI (map Fin cs) ! i = NaN
    \<and> RSI (map Fin cs) ! i \<noteq> Fin 100
    \<and> RSI (map Fin cs) ! i \<noteq> Fin 0"
  using assms flat_means [OF assms] RSI_flat [OF assms]
  by (simp add: gain_nth loss_nth)

theorem rsi_flat_run_nan_witness:
  "RSI (map Fin [3, 4, 7, 7, 7, 7, 7, 7, 7, 7, 7, 7, 7, 7, 7, 7, 7, 9]) ! 16 = NaN
   \<and> gain (map Fin [3, 4, 7, 7, 7, 7, 7, 7, 7, 7, 7, 7, 7, 7, 7, 7, 7, 9]) ! 16 = Fin 0
   \<and> loss (map Fin [3, 4, 7, 7, 7, 7, 7, 7, 7, 7, 7, 7, 7, 7, 7, 7, 7, 9]) ! 16 = Fin 0"
proof -
  let ?cs = "[3, 4, 7, 7, 7, 7, 7, 7, 7, 7, 7, 7, 7, 7, 7, 7, 7, 9] :: real list"
  have len: "16 < length ?cs"
    by simp
  have flat: "window 15 ?cs 16 = replicate 15 7"
    by code_simp
  from rsi_flat_run_nan [OF len flat] show ?thesis
    by blast
qed

section \<open>Undefined inputs of the advisor\<close>

lemma fl_lt_NaN: "fl_lt x NaN = False" "fl_lt NaN x = False"
  by (cases x; simp)+

lemma no_indeterminate:
  "\<forall>t \<in> set [buy_msg, sell_msg, hold_msg]. \<forall>r \<in> set [oversold_msg, overbought_msg, neutral_msg].
     \<not> sublist ''indeterminate'' (t @ r)"
  by code_simp

text \<open>
  C5, as stated, fails: with SMA20, SMA50 and RSI undefined the advisor emits the
  Hold and the Neutral message and the word indeterminate is in neither; a run on
  a table of two bars with the five price and volume columns ends by writing
  exactly these two messages.
\<close>

theorem short_history_counterexample:
  "trend_message (Fin 11) NaN NaN = hold_msg
   \<and> rsi_message NaN = neutral_msg
   \<and> \<not> sublist ''indeterminate'' (recommendation (Fin 11) NaN NaN NaN)
   \<and> last (trace (snd (run
        \<lparr>nifty_page = Inr [Some ''TCS''],
           provider = (\<lambda>_ _ _. Inr \<lparr>index = [Date 2024 6 18, Date 2024 6 19],
                                     columns = [(''Open'', [Fin 9, Fin 10]),
                                                (''High'', [Fin 12, Fin 13]),
                                                (''Low'', [Fin 8, Fin 9]),
                                                (''Close'', [Fin 10, Fin 11]),
                                                (''Volume'', [Fin 1000, Fin 1200])]\<rparr>)\<rparr>
        \<lparr>choice = 0, start_input = Date 2024 6 18, end_input = Date 2024 6 20\<rparr>)))
      = St_write (hold_msg @ neutral_msg)"
  by code_simp

text \<open>
  C5, amended. When the latest close, SMA20 or SMA50 is NaN the trend message is
  the Hold message; when the RSI is NaN the RSI message is the Neutral message; no
  recommendation contains the word indeterminate.
\<close>

theorem undefined_inputs_give_hold_and_neutral:
  "(c = NaN \<or> s20 = NaN \<or> s50 = NaN \<longrightarrow> trend_message c s20 s50 = hold_msg)
   \<and> rsi_message NaN = neutral_msg
   \<and> \<not> sublist ''indeterminate'' (recommendation c s20 s50 r)"
proof -
  have trend: "trend_message c s20 s50 = hold_msg" if "c = NaN \<or> s20 = NaN \<or> s50 = NaN"
    using that by (auto simp: trend_message_def fl_gt_def fl_lt_NaN)
  have rsi: "rsi_message NaN = neutral_msg"
    by (simp add: rsi_message_def fl_gt_def)
  have "trend_message c s20 s50 \<in> set [buy_msg, sell_msg, hold_msg]"
    by (simp add: trend_message_def)
  moreover have "rsi_message r \<in> set [oversold_msg, overbought_msg, neutral_msg]"
    by (simp add: rsi_message_def)
  ultimately have "\<not> sublist ''indeterminate'' (trend_message c s20 s50 @ rsi_message r)"
    using no_indeterminate by blast
  then have "\<not> sublist ''indeterminate'' (recommendation c s20 s50 r)"
    by (simp add: recommendation_def)
  with trend rsi show ?thesis by blast
qed

theorem undefined_inputs_give_hold_and_neutral_witness:
  "trend_message (Fin 105) (Fin 104) NaN = hold_msg
   \<and> trend_message (Fin 95) NaN (Fin 97) = hold_msg
   \<and> trend_message NaN (Fin 96) (Fin 97) = hold_msg"
proof -
  have "(Fin 105 = NaN \<or> Fin 104 = NaN \<or> (NaN :: fl) = NaN)"
    "(Fin 95 = NaN \<or> (NaN :: fl) = NaN \<or> Fin 97 = NaN)"
    "((NaN :: fl) = NaN \<or> Fin 96 = NaN \<or> Fin 97 = NaN)"
    by simp_all
  with undefined_inputs_give_hold_and_neutral [of "Fin 105" "Fin 104" NaN]
    undefined_inputs_give_hold_and_neutral [of "Fin 95" NaN "Fin 97"]
    undefined_inputs_give_hold_and_neutral [of NaN "Fin 96" "Fin 97"]
  show ?thesis by blast
qed

section \<open>Steps of the script and the trace\<close>

lemma appends_ret: "appends (ret x)"
  by (simp add: appends_def ret_def)

lemma appends_raise: "appends (raise e)"
  by (simp add: appends_def raise_def)

lemma appends_emit: "appends (emit e)"
  by (simp add: appends_def emit_def)

lemma appends_getitem: "appends (getitem a name)"
  by (simp add: appends_def getitem_def split: option.splits)

lemma appends_assign: "appends (assign a name col)"
  by (simp add: appends_def assign_def split: option.splits)

lemma appends_iloc_last: "appends (iloc_last xs)"
  by (simp add: iloc_last_def appends_ret appends_raise)

lemma appends_seq:
  assumes "appends m" "\<And>x. appends (f x)"
  shows "appends (seq m f)"
  unfolding appends_def
proof
  fix s
  obtain r s1 where m: "m s = (r, s1)"
    by (cases "m s")
  from assms(1) obtain evs1 where t1: "trace s1 = trace s @ evs1"
    unfolding appends_def using m by (metis snd_conv)
  show "\<exists>evs. trace (snd (seq m f s)) = trace s @ evs"
  proof (cases r)
    case (Inl e)
    with m t1 show ?thesis by (simp add: seq_def)
  next
    case (Inr x)
    from assms(2) [of x] obtain evs2 where "trace (snd (f x s1)) = trace s1 @ evs2"
      unfolding appends_def by blast
    with m t1 Inr show ?thesis by (simp add: seq_def)
  qed
qed

lemma appends_keeps:
  "appends m \<Longrightarrow> e \<in> set (trace s) \<Longrightarrow> e \<in> set (trace (snd (m s)))"
  unfolding appends_def by (metis Un_iff set_append)

lemmas appends_intros =
  appends_seq appends_ret appends_raise appends_emit appends_getitem appends_assign
  appends_iloc_last

lemma appends_latest: "appends (latest a name)"
  unfolding latest_def by (intro appends_intros)

lemma appends_moving_averages: "appends (moving_averages a)"
  unfolding moving_averages_def by (intro appends_intros)

lemma appends_relative_strength: "appends (relative_strength a)"
  unfolding relative_strength_def by (intro appends_intros)

lemma appends_advise: "appends (advise a)"
  unfolding advise_def by (intro appends_intros appends_latest)

lemma appends_stock_name: "appends (stock_name sel)"
  by (cases sel) (simp_all add: stock_name_def appends_ret appends_raise)

lemma appends_px_line: "appends (px_line a ys)"
  by (simp add: appends_def px_line_def split: option.splits list.splits)

lemma appends_go_candlestick: "appends (go_candlestick a)"
  unfolding go_candlestick_def by (intro appends_intros)

lemma appends_analysis: "appends (analysis sel a)"
  unfolding analysis_def
  by (intro appends_intros appends_latest appends_moving_averages appends_relative_strength
      appends_advise appends_stock_name appends_px_line appends_go_candlestick)

lemma date_lt_iff_not_ge: "date_lt a b \<longleftrightarrow> \<not> date_ge a b"
  by (cases a; cases b) (auto simp: date_lt_def date_ge_def)

lemma fetch_returns:
  "\<exists>d s'. fetch_stock_data p tick a b s = (Inr d, s')
     \<and> Yf_history tick a b \<in> set (trace s')"
  by (cases "p tick a b") (simp_all add: fetch_stock_data_def seq_def emit_def ret_def)

lemma appends_fetch: "appends (fetch_stock_data p tick a b)"
  unfolding appends_def
  by (cases "p tick a b") (simp_all add: fetch_stock_data_def seq_def emit_def ret_def)

lemma fetch_then_keeps:
  assumes "\<And>d. appends (rest d)"
  shows "Yf_history tick a b \<in> set (trace (snd (seq (fetch_stock_data p tick a b) rest s)))"
proof -
  from fetch_returns [of p tick a b s] obtain d s'
    where f: "fetch_stock_data p tick a b s = (Inr d, s')"
      and e: "Yf_history tick a b \<in> set (trace s')"
    by blast
  from appends_keeps [OF assms e] have "Yf_history tick a b \<in> set (trace (snd (rest d s')))" .
  with f show ?thesis
    by (simp add: seq_def)
qed

lemma appends_shown:
  "appends (\<lambda>s. case d of
       None \<Rightarrow> emit e s
     | Some a \<Rightarrow>
         (case frames s a of
            None \<Rightarrow> emit e s
          | Some df \<Rightarrow> if \<not> df_empty df then analysis sel a s else emit e s))"
  using appends_emit [of e] appends_analysis [of sel]
  unfolding appends_def by (auto split: option.splits)

lemma seq_emit: "seq (emit e) f s = f () (s\<lparr>trace := trace s @ [e]\<rparr>)"
  by (simp add: seq_def emit_def)

lemma seq_catalog_failed:
  "seq (get_nse_symbols (Inl e)) f s =
     f default_symbols
       (s\<lparr>trace := trace s @ [St_error ''Failed to fetch stock symbols. Using default list.'']\<rparr>)"
  by (simp add: get_nse_symbols_def read_symbol_column_def seq_def emit_def ret_def)

text \<open>
  Whatever the page gives, the catalog step hands a list on and adds at most its
  own message to the trace.
\<close>

lemma seq_catalog:
  "\<exists>syms evs.
     (\<forall>f s. seq (get_nse_symbols page) f s = f syms (s\<lparr>trace := trace s @ evs\<rparr>))
     \<and> (\<forall>tick a b. Yf_history tick a b \<notin> set evs)
     \<and> (\<forall>e. page = Inl e \<longrightarrow> syms = default_symbols)"
proof (cases "read_symbol_column page")
  case (Inl e)
  then have "\<forall>f s. seq (get_nse_symbols page) f s =
      f default_symbols
        (s\<lparr>trace := trace s @ [St_error ''Failed to fetch stock symbols. Using default list.'']\<rparr>)"
    by (simp add: get_nse_symbols_def seq_def emit_def ret_def)
  moreover have "\<forall>tick a b. Yf_history tick a b
      \<notin> set [St_error ''Failed to fetch stock symbols. Using default list.'']"
    by simp
  ultimately show ?thesis by blast
next
  case (Inr symbols)
  then have "\<forall>f s. seq (get_nse_symbols page) f s = f symbols (s\<lparr>trace := trace s @ []\<rparr>)"
    by (simp add: get_nse_symbols_def seq_def ret_def)
  moreover have "\<forall>tick a b. Yf_history tick a b \<notin> set []"
    by simp
  moreover have "\<forall>e. page \<noteq> Inl e"
    using Inr by (auto simp: read_symbol_column_def)
  ultimately show ?thesis by blast
qed

lemma main_invalid_range:
  assumes "date_ge (start_input u) (end_input u)"
  shows "\<exists>syms evs. main w u s =
     (Inr (), s\<lparr>trace := trace s @
        [St_title ''Advanced Stock Price Analysis App'', St_write intro_text] @ evs @
        [St_selectbox ''Select a stock symbol'' syms,
         St_date_input ''Start date'' (Date 2014 6 20),
         St_date_input ''End date'' (Date 2024 6 21),
         St_error ''Error: End date must fall after start date.'']\<rparr>)
     \<and> (\<forall>tick a b. Yf_history tick a b \<notin> set evs)"
proof -
  from seq_catalog [of "nifty_page w"] obtain syms evs
    where step: "\<And>(f :: string list \<Rightarrow> unit prog) s. seq (get_nse_symbols (nifty_page w)) f s
                   = f syms (s\<lparr>trace := trace s @ evs\<rparr>)"
      and evs: "\<forall>tick a b. Yf_history tick a b \<notin> set evs"
    by blast
  from assms have "main w u s =
     (Inr (), s\<lparr>trace := trace s @
        [St_title ''Advanced Stock Price Analysis App'', St_write intro_text] @ evs @
        [St_selectbox ''Select a stock symbol'' syms,
         St_date_input ''Start date'' (Date 2014 6 20),
         St_date_input ''End date'' (Date 2024 6 21),
         St_error ''Error: End date must fall after start date.'']\<rparr>)"
    by (simp add: main_def step seq_emit emit_def)
  with evs show ?thesis by blast
qed

lemma main_valid_range:
  assumes "\<not> date_ge (start_input u) (end_input u)"
  shows "\<exists>syms. Yf_history (selectbox syms (choice u)) (start_input u) (end_input u)
           \<in> set (trace (snd (main w u s)))
         \<and> St_selectbox ''Select a stock symbol'' syms \<in> set (trace (snd (main w u s)))
         \<and> (\<forall>e. nifty_page w = Inl e \<longrightarrow> syms = default_symbols)"
proof -
  from seq_catalog [of "nifty_page w"] obtain syms evs
    where step: "\<And>(f :: string list \<Rightarrow> unit prog) s. seq (get_nse_symbols (nifty_page w)) f s
                   = f syms (s\<lparr>trace := trace s @ evs\<rparr>)"
      and failed: "\<forall>e. nifty_page w = Inl e \<longrightarrow> syms = default_symbols"
    by blast
  define rest where "rest = (\<lambda>data_df s.
      case data_df of
        None \<Rightarrow> emit (St_error ''No data available for the selected stock and data range.'') s
      | Some a \<Rightarrow>
          (case frames s a of
             None \<Rightarrow> emit (St_error ''No data available for the selected stock and data range.'') s
           | Some df \<Rightarrow>
               if \<not> df_empty df
               then analysis (selectbox syms (choice u)) a s
               else emit (St_error ''No data available for the selected stock and data range.'') s))"
  have rest: "appends (rest d)" for d
    unfolding rest_def by (rule appends_shown)
  have "\<exists>s1. main w u s =
          seq (fetch_stock_data (provider w) (selectbox syms (choice u))
                 (start_input u) (end_input u)) rest s1
        \<and> St_selectbox ''Select a stock symbol'' syms \<in> set (trace s1)"
    using assms
    apply (simp add: main_def step seq_emit rest_def)
    apply (rule exI, rule conjI, rule refl, simp)
    done
  then obtain s1 where m: "main w u s =
          seq (fetch_stock_data (provider w) (selectbox syms (choice u))
                 (start_input u) (end_input u)) rest s1"
      and sel: "St_selectbox ''Select a stock symbol'' syms \<in> set (trace s1)"
    by blast
  have "appends (seq (fetch_stock_data (provider w) (selectbox syms (choice u))
                 (start_input u) (end_input u)) rest)"
    by (intro appends_seq appends_fetch rest)
  from appends_keeps [OF this sel] m
  have "St_selectbox ''Select a stock symbol'' syms \<in> set (trace (snd (main w u s)))"
    by simp
  moreover have "Yf_history (selectbox syms (choice u)) (start_input u) (end_input u)
           \<in> set (trace (snd (main w u s)))"
    unfolding m by (rule fetch_then_keeps) (rule rest)
  with failed show ?thesis
    using calculation by blast
qed

lemma main_catalog_failed_invalid:
  assumes "date_ge (start_input u) (end_input u)" "nifty_page w = Inl e"
  shows "St_selectbox ''Select a stock symbol'' default_symbols \<in> set (trace (snd (main w u s)))"
  using assms by (simp add: main_def seq_catalog_failed seq_emit emit_def)

section \<open>The date check\<close>

text \<open>
  C6. When the start date is not before the end date the run ends normally with
  the validation error as its last event, its trace holds no request to the price
  provider, no table is in the store and the run does not depend on the provider;
  a request to the provider is in the trace exactly when the start date is before
  the end date.
\<close>

theorem invalid_range_never_fetches:
  "(date_ge (start_input u) (end_input u) \<longrightarrow>
      fst (run w u) = Inr ()
      \<and> last (trace (snd (run w u))) = St_error ''Error: End date must fall after start date.''
      \<and> (\<forall>tick a b. Yf_history tick a b \<notin> set (trace (snd (run w u))))
      \<and> frames (snd (run w u)) = Map.empty
      \<and> run (w\<lparr>provider := p\<rparr>) u = run w u)
   \<and> ((\<exists>tick a b. Yf_history tick a b \<in> set (trace (snd (run w u))))
        \<longleftrightarrow> date_lt (start_input u) (end_input u))"
proof -
  have invalid: "fst (run w u) = Inr ()
      \<and> last (trace (snd (run w u))) = St_error ''Error: End date must fall after start date.''
      \<and> (\<forall>tick a b. Yf_history tick a b \<notin> set (trace (snd (run w u))))
      \<and> frames (snd (run w u)) = Map.empty
      \<and> run (w\<lparr>provider := p\<rparr>) u = run w u"
    if ge: "date_ge (start_input u) (end_input u)"
  proof -
    from main_invalid_range [OF ge, of w initial_state] obtain syms evs
      where m: "run w u =
         (Inr (), initial_state\<lparr>trace := trace initial_state @
            [St_title ''Advanced Stock Price Analysis App'', St_write intro_text] @ evs @
            [St_selectbox ''Select a stock symbol'' syms,
             St_date_input ''Start date'' (Date 2014 6 20),
             St_date_input ''End date'' (Date 2024 6 21),
             St_error ''Error: End date must fall after start date.'']\<rparr>)"
        and evs: "\<forall>tick a b. Yf_history tick a b \<notin> set evs"
      unfolding run_def by blast
    have same: "run (w\<lparr>provider := p\<rparr>) u = run w u"
    proof -
      from seq_catalog [of "nifty_page w"] obtain syms evs
        where step: "\<And>(f :: string list \<Rightarrow> unit prog) s. seq (get_nse_symbols (nifty_page w)) f s
                       = f syms (s\<lparr>trace := trace s @ evs\<rparr>)"
        by blast
      from ge show ?thesis
        by (simp add: run_def main_def step seq_emit)
    qed
    from m evs same show ?thesis
      by (simp add: initial_state_def)
  qed
  have valid: "\<exists>tick a b. Yf_history tick a b \<in> set (trace (snd (run w u)))"
    if "date_lt (start_input u) (end_input u)"
    using main_valid_range [of u w initial_state] that
    unfolding run_def date_lt_iff_not_ge by blast
  from invalid valid show ?thesis
    unfolding date_lt_iff_not_ge by blast
qed

theorem invalid_range_never_fetches_witness:
  "last (trace (snd (run
      \<lparr>nifty_page = Inr [Some ''TCS''], provider = (\<lambda>_ _ _. Inl (OtherError ''offline''))\<rparr>
      \<lparr>choice = 0, start_input = Date 2024 6 21, end_input = Date 2024 6 20\<rparr>)))
     = St_error ''Error: End date must fall after start date.''
   \<and> (\<exists>tick a b. Yf_history tick a b \<in> set (trace (snd (run
      \<lparr>nifty_page = Inr [Some ''TCS''], provider = (\<lambda>_ _ _. Inl (OtherError ''offline''))\<rparr>
      \<lparr>choice = 0, start_input = Date 2024 6 20, end_input = Date 2024 6 21\<rparr>))))"
proof -
  let ?w = "\<lparr>nifty_page = Inr [Some ''TCS''], provider = (\<lambda>_ _ _. Inl (OtherError ''offline''))\<rparr>"
  let ?bad = "\<lparr>choice = 0, start_input = Date 2024 6 21, end_input = Date 2024 6 20\<rparr>"
  let ?good = "\<lparr>choice = 0, start_input = Date 2024 6 20, end_input = Date 2024 6 21\<rparr>"
  have ge: "date_ge (start_input ?bad) (end_input ?bad)"
    by (simp add: date_ge_def date_lt_def)
  have lt: "date_lt (start_input ?good) (end_input ?good)"
    by (simp add: date_lt_def)
  from invalid_range_never_fetches [of ?bad ?w] ge
  have a: "last (trace (snd (run ?w ?bad)))
             = St_error ''Error: End date must fall after start date.''"
    by blast
  from invalid_range_never_fetches [of ?good ?w] lt
  have b: "\<exists>tick a b. Yf_history tick a b \<in> set (trace (snd (run ?w ?good)))"
    by blast
  from a b show ?thesis by blast
qed

section \<open>The catalog fallback\<close>

lemma default_symbols_shape:
  "length default_symbols = 10 \<and> distinct default_symbols
   \<and> (\<forall>name \<in> set default_symbols. suffix ''.NS'' name \<and> 3 < length name)"
  by code_simp

text \<open>
  C9. Whatever exception the retrieval raises, \<open>get_nse_symbols\<close> returns the
  fixed list of ten distinct symbols, each a name followed by \<open>.NS\<close>, and adds
  one error message to the trace without raising; the run then offers this list
  in the select box and, with a valid date range, asks the provider for the
  symbol picked from it.
\<close>

theorem catalog_failure_falls_back:
  "get_nse_symbols (Inl e) s =
     (Inr default_symbols,
      s\<lparr>trace := trace s @ [St_error ''Failed to fetch stock symbols. Using default list.'']\<rparr>)
   \<and> length default_symbols = 10
   \<and> distinct default_symbols
   \<and> (\<forall>name \<in> set default_symbols. suffix ''.NS'' name \<and> 3 < length name)
   \<and> (nifty_page w = Inl e \<longrightarrow>
        St_selectbox ''Select a stock symbol'' default_symbols \<in> set (trace (snd (run w u))))
   \<and> (nifty_page w = Inl e \<and> date_lt (start_input u) (end_input u) \<and> choice u < 10 \<longrightarrow>
        Yf_history (Some (default_symbols ! choice u)) (start_input u) (end_input u)
          \<in> set (trace (snd (run w u))))"
proof -
  have a: "get_nse_symbols (Inl e) s =
     (Inr default_symbols,
      s\<lparr>trace := trace s @ [St_error ''Failed to fetch stock symbols. Using default list.'']\<rparr>)"
    by (simp add: get_nse_symbols_def read_symbol_column_def seq_def emit_def ret_def)
  have b: "St_selectbox ''Select a stock symbol'' default_symbols \<in> set (trace (snd (run w u)))"
    if "nifty_page w = Inl e"
  proof (cases "date_ge (start_input u) (end_input u)")
    case True
    from main_catalog_failed_invalid [OF True that] show ?thesis
      by (simp add: run_def)
  next
    case False
    from main_valid_range [OF False, of w initial_state] that show ?thesis
      unfolding run_def by blast
  qed
  have c: "Yf_history (Some (default_symbols ! choice u)) (start_input u) (end_input u)
          \<in> set (trace (snd (run w u)))"
    if "nifty_page w = Inl e" "date_lt (start_input u) (end_input u)" "choice u < 10"
  proof -
    from that(2) have "\<not> date_ge (start_input u) (end_input u)"
      by (simp add: date_lt_iff_not_ge)
    from main_valid_range [OF this, of w initial_state] that(1)
    have "Yf_history (selectbox default_symbols (choice u)) (start_input u) (end_input u)
           \<in> set (trace (snd (run w u)))"
      unfolding run_def by blast
    moreover have "selectbox default_symbols (choice u) = Some (default_symbols ! choice u)"
      using that(3) default_symbols_shape by (simp add: selectbox_def)
    ultimately show ?thesis by simp
  qed
  from a b c default_symbols_shape show ?thesis
    by blast
qed

theorem catalog_failure_falls_back_witness:
  "Yf_history (Some ''TCS.NS'') (Date 2024 6 20) (Date 2024 6 21)
     \<in> set (trace (snd (run
      \<lparr>nifty_page = Inl (OtherError ''URLError''),
         provider = (\<lambda>_ _ _. Inl (OtherError ''offline''))\<rparr>
      \<lparr>choice = 2, start_input = Date 2024 6 20, end_input = Date 2024 6 21\<rparr>)))
   \<and> St_selectbox ''Select a stock symbol'' default_symbols
     \<in> set (trace (snd (run
      \<lparr>nifty_page = Inl (OtherError ''URLError''),
         provider = (\<lambda>_ _ _. Inl (OtherError ''offline''))\<rparr>
      \<lparr>choice = 2, start_input = Date 2024 6 20, end_input = Date 2024 6 21\<rparr>)))"
proof -
  let ?w = "\<lparr>nifty_page = Inl (OtherError ''URLError''),
         provider = (\<lambda>_ _ _. Inl (OtherError ''offline''))\<rparr>"
  let ?u = "\<lparr>choice = 2, start_input = Date 2024 6 20, end_input = Date 2024 6 21\<rparr>"
  have h: "nifty_page ?w = Inl (OtherError ''URLError'')"
    "date_lt (start_input ?u) (end_input ?u)" "choice ?u < 10"
    by (simp_all add: date_lt_def)
  have pick: "default_symbols ! 2 = ''TCS.NS''"
    by (simp add: default_symbols_def)
  from catalog_failure_falls_back [of "OtherError ''URLError''" _ ?w ?u] h
  have "Yf_history (Some (default_symbols ! choice ?u)) (start_input ?u) (end_input ?u)
          \<in> set (trace (snd (run ?w ?u)))"
    and "St_selectbox ''Select a stock symbol'' default_symbols \<in> set (trace (snd (run ?w ?u)))"
    by blast+
  then show ?thesis
    by (simp add: pick)
qed

section \<open>Column assignment on the fetched table\<close>










end
